theory Spec2Isabelle
  imports Main "HOL-Library.Sublist"
begin

section \<open>The site configuration module (src/helpers/config.js)\<close>

text \<open>
  The module consists of three top-level statements: the declaration of the object
  literal \<open>config\<close>, the exported declaration of the object literal \<open>SavedTweets\<close>,
  and the default export of \<open>config\<close>. There is no function in it.

  A JavaScript value is a string, a number or \<open>undefined\<close> (what reading an absent
  property gives). An object literal is the list of its properties in the order in
  which the source writes them, so that a repeated key would be visible.
\<close>

datatype jsval = JUndefined | JNum int | JStr string

type_synonym jsobj = "(string \<times> jsval) list"

text \<open>
  Member access \<open>obj.key\<close> at a key that the literal writes: the value of that own
  property. At any other key the result here is \<open>undefined\<close>; the members that a
  JavaScript object inherits from its prototype are not part of the literal and are not
  modelled, so nothing below reads a key that the literal does not write.
\<close>

definition get_prop :: "jsobj \<Rightarrow> string \<Rightarrow> jsval" where
  "get_prop obj k = (case map_of obj k of Some v \<Rightarrow> v | None \<Rightarrow> JUndefined)"

definition config :: jsobj where
  "config =
    [ (''siteTitle'', JStr ''Aman Mittal''),
      (''siteUrl'', JStr ''https://amanhimself.dev''),
      (''description'', JStr ''Software engineer and technical content writer.''),
      (''username'', JStr ''Alec Campbell''),
      (''shortname'', JStr ''@fu4303''),
      (''newsletter'', JStr ''https://amanhimself.substack.com/''),
      (''github'', JStr ''https://github.com/fu4303''),
      (''twitter'', JStr ''https://twitter.com/fu4303''),
      (''medium'', JStr ''https://medium.com/@amanhimself''),
      (''devto'', JStr ''https://dev.to/fu4303''),
      (''hashnode'', JStr ''https://hashnode.com/@fu4303''),
      (''instagram'', JStr ''https://www.instagram.com/amanhimselfcodes/''),
      (''hundredDaysOfCodeBot'', JStr ''https://twitter.com/_100Daysofcode''),
      (''mailAddress'', JStr ''mailto:amanmittal.work@gmail.com''),
      (''kofi'', JStr ''https://ko-fi.com/amanhimself''),
      (''twitterBotRepo'', JStr ''https://github.com/freeCodeCamp/100DaysOfCode-twitter-bot''),
      (''goodreads'', JStr ''https://www.goodreads.com/author/show/17657541.Aman_Mittal''),
      (''subscribersCount'', JStr ''1200+'') ]"

definition SavedTweets :: jsobj where
  "SavedTweets =
    [ (''twoMillionViews'', JStr ''https://twitter.com/amanhimself/status/1285554115464982528''),
      (''topContributorFreeCodeCamp2018'',
        JStr ''https://www.freecodecamp.org/news/announcing-our-freecodecamp-2018-top-contributor-award-winners-861da08a77e1/'') ]"

text \<open>
  What the module exports, by export name, in source order: the named export
  \<open>SavedTweets\<close> and the default export, which is \<open>config\<close>.
\<close>

definition module_exports :: "(string \<times> jsobj) list" where
  "module_exports = [ (''SavedTweets'', SavedTweets), (''default'', config) ]"

text \<open>\<open>s.startsWith(p)\<close>.\<close>

definition startsWith :: "string \<Rightarrow> string \<Rightarrow> bool" where
  "startsWith s p = prefix p s"

text \<open>The value is a string (\<open>typeof v === 'string'\<close>).\<close>

fun is_string :: "jsval \<Rightarrow> bool" where
  "is_string (JStr s) = True"
| "is_string v = False"

subsection \<open>The keys and the shapes that the specification names\<close>

text \<open>The keys of the configuration object that the data model documents.\<close>

definition documented_keys :: "string list" where
  "documented_keys =
    [ ''siteTitle'', ''siteUrl'', ''description'', ''username'', ''shortname'',
      ''github'', ''twitter'', ''medium'', ''devto'', ''hashnode'', ''instagram'',
      ''goodreads'', ''mailAddress'', ''newsletter'', ''kofi'', ''twitterBotRepo'',
      ''hundredDaysOfCodeBot'', ''subscribersCount'' ]"

text \<open>The fields whose value is a link to a web page.\<close>

definition link_fields :: "string list" where
  "link_fields =
    [ ''siteUrl'', ''newsletter'', ''github'', ''twitter'', ''medium'', ''devto'',
      ''hashnode'', ''instagram'', ''hundredDaysOfCodeBot'', ''kofi'',
      ''twitterBotRepo'', ''goodreads'' ]"

definition is_alpha :: "char \<Rightarrow> bool" where
  "is_alpha c = (c \<in> set ''abcdefghijklmnopqrstuvwxyzABCDEFGHIJKLMNOPQRSTUVWXYZ'')"

definition is_digit :: "char \<Rightarrow> bool" where
  "is_digit c = (c \<in> set ''0123456789'')"

text \<open>A decimal numeral: one digit or more, and nothing else.\<close>

definition is_decimal_numeral :: "string \<Rightarrow> bool" where
  "is_decimal_numeral s = (s \<noteq> [] \<and> list_all is_digit s)"

text \<open>
  The scheme of a URI: what stands before its first colon; none when the string has
  no colon.
\<close>

definition uri_scheme :: "string \<Rightarrow> string option" where
  "uri_scheme s =
    (if CHR '':'' \<in> set s then Some (takeWhile (\<lambda>c. c \<noteq> CHR '':'') s) else None)"

text \<open>The value is a string with a URI scheme, and the scheme is not https.\<close>

fun uses_other_scheme :: "jsval \<Rightarrow> bool" where
  "uses_other_scheme (JStr s) =
    (case uri_scheme s of None \<Rightarrow> False | Some sc \<Rightarrow> sc \<noteq> ''https'')"
| "uses_other_scheme v = False"

text \<open>
  Syntactic validity of a URL, as a recogniser of a subset of the generic syntax of
  RFC 3986, section 3: \<open>scheme "://" host [ ":" port ] path [ "?" query ] [ "#" fragment ]\<close>.
  The scheme is a letter followed by letters, digits, plus, minus or dot. The host is
  a host name: labels separated by dots, each of 1 to 63 letters, digits or hyphens
  with no hyphen at either end, the last label starting with a letter. The port is
  a decimal number up to 65535. The path is empty or starts with a slash. Path,
  query and fragment hold only the characters that the RFC allows in them, and a
  percent sign only in front of two hexadecimal digits. User information, IP
  literals and an empty port are refused, although the RFC has them: whatever this
  recogniser accepts is a URI of the RFC.
\<close>

definition is_hexdig :: "char \<Rightarrow> bool" where
  "is_hexdig c = (c \<in> set ''0123456789abcdefABCDEF'')"

definition is_scheme_char :: "char \<Rightarrow> bool" where
  "is_scheme_char c = (is_alpha c \<or> is_digit c \<or> c \<in> set ''+-.'')"

text \<open>\<open>pchar\<close> without the percent sign: unreserved, sub-delimiters, colon and at-sign.\<close>

definition is_pchar :: "char \<Rightarrow> bool" where
  "is_pchar c =
    (is_alpha c \<or> is_digit c \<or> c \<in> set ''-._~'' \<or> c \<in> set ''!$&()*+,;=''
     \<or> c = CHR 0x27 \<or> c \<in> set '':@'')"

definition is_path_char :: "char \<Rightarrow> bool" where
  "is_path_char c = (is_pchar c \<or> c = CHR ''/'')"

definition is_query_char :: "char \<Rightarrow> bool" where
  "is_query_char c = (is_pchar c \<or> c \<in> set ''/?'')"

text \<open>
  Every character satisfies \<open>P\<close>, apart from percent signs, each of which is followed
  by two hexadecimal digits.
\<close>

fun encoded_run :: "(char \<Rightarrow> bool) \<Rightarrow> string \<Rightarrow> bool" where
  "encoded_run P [] = True"
| "encoded_run P (c # cs) =
    (if c = CHR ''%''
     then (case cs of h1 # h2 # r \<Rightarrow> is_hexdig h1 \<and> is_hexdig h2 \<and> encoded_run P r
           | _ \<Rightarrow> False)
     else P c \<and> encoded_run P cs)"

text \<open>The pieces of a string between the occurrences of a separator.\<close>

fun split_on :: "char \<Rightarrow> string \<Rightarrow> string list" where
  "split_on d [] = [[]]"
| "split_on d (c # cs) =
    (if c = d then [] # split_on d cs
     else (case split_on d cs of [] \<Rightarrow> [[c]] | l # ls \<Rightarrow> (c # l) # ls))"

definition valid_scheme :: "string \<Rightarrow> bool" where
  "valid_scheme sc =
    (case sc of [] \<Rightarrow> False | c # cs \<Rightarrow> is_alpha c \<and> list_all is_scheme_char cs)"

definition valid_label :: "string \<Rightarrow> bool" where
  "valid_label l =
    (case l of [] \<Rightarrow> False
     | c # cs \<Rightarrow> length l \<le> 63 \<and> c \<noteq> CHR ''-'' \<and> last l \<noteq> CHR ''-''
         \<and> list_all (\<lambda>x. is_alpha x \<or> is_digit x \<or> x = CHR ''-'') l)"

definition valid_host :: "string \<Rightarrow> bool" where
  "valid_host h =
    (let labels = split_on CHR ''.'' h
     in list_all valid_label labels
        \<and> (case last labels of [] \<Rightarrow> False | c # cs \<Rightarrow> is_alpha c))"

definition port_number :: "string \<Rightarrow> nat" where
  "port_number p = foldl (\<lambda>n c. 10 * n + (of_char c - 48)) 0 p"

definition valid_port :: "string \<Rightarrow> bool" where
  "valid_port p =
    (p \<noteq> [] \<and> length p \<le> 5 \<and> list_all is_digit p \<and> port_number p \<le> 65535)"

definition valid_authority :: "string \<Rightarrow> bool" where
  "valid_authority a =
    (valid_host (takeWhile (\<lambda>c. c \<noteq> CHR '':'') a)
     \<and> (case dropWhile (\<lambda>c. c \<noteq> CHR '':'') a of [] \<Rightarrow> True | c # p \<Rightarrow> valid_port p))"

definition valid_url :: "string \<Rightarrow> bool" where
  "valid_url s =
    (let scheme = takeWhile (\<lambda>c. c \<noteq> CHR '':'') s;
         after_scheme = dropWhile (\<lambda>c. c \<noteq> CHR '':'') s;
         hier = drop 3 after_scheme;
         before_fragment = takeWhile (\<lambda>c. c \<noteq> CHR ''#'') hier;
         fragment = drop 1 (dropWhile (\<lambda>c. c \<noteq> CHR ''#'') hier);
         before_query = takeWhile (\<lambda>c. c \<noteq> CHR ''?'') before_fragment;
         query = drop 1 (dropWhile (\<lambda>c. c \<noteq> CHR ''?'') before_fragment);
         authority = takeWhile (\<lambda>c. c \<noteq> CHR ''/'') before_query;
         path = dropWhile (\<lambda>c. c \<noteq> CHR ''/'') before_query
     in valid_scheme scheme \<and> prefix ''://'' after_scheme \<and> valid_authority authority
        \<and> encoded_run is_path_char path \<and> encoded_run is_query_char query
        \<and> encoded_run is_query_char fragment)"

text \<open>The value is a link to a tweet: a string that starts with the address of Twitter.\<close>

fun references_tweet :: "jsval \<Rightarrow> bool" where
  "references_tweet (JStr s) = startsWith s ''https://twitter.com/''"
| "references_tweet v = False"

section \<open>The content document (content/posts)\<close>

text \<open>
  A content document is a markdown file that opens with a front-matter block. A value
  of the block is a string (quoted or plain), a date, or a list of strings.
\<close>

datatype fmval = FmStr string | FmDate nat nat nat | FmList "string list"

type_synonym front_matter = "(string \<times> fmval) list"

text \<open>The front-matter of content/posts/redux-with-react-native-hooks.md.\<close>

definition redux_with_react_native_hooks :: front_matter where
  "redux_with_react_native_hooks =
    [ (''title'', FmStr ''Using Redux with React Hooks in a React Native app''),
      (''date'', FmDate 2020 1 27),
      (''slug'', FmStr ''blog/redux-with-react-native-hooks''),
      (''thumbnail'', FmStr ''../thumbnails/expo.png''),
      (''template'', FmStr ''post''),
      (''tags'', FmList [''expo'', ''redux'', ''react-native'']) ]"

text \<open>The front-matter keys that the content file format requires.\<close>

definition required_keys :: "string list" where
  "required_keys = [''title'', ''date'', ''slug'', ''thumbnail'', ''template'', ''tags'']"

section \<open>Properties of the configuration\<close>

text \<open>
  C1. Loading the configuration gives \<open>config.siteTitle\<close> equal to the string
  'Aman Mittal', \<open>config.github\<close> a string that starts with 'https://github.com/',
  and a \<open>SavedTweets\<close> object with exactly two entries, under the keys
  \<open>twoMillionViews\<close> and \<open>topContributorFreeCodeCamp2018\<close>, whose values are the
  URLs written in the source.
\<close>

theorem config_concrete_scenario:
  "get_prop config ''siteTitle'' = JStr ''Aman Mittal''
   \<and> (\<exists>s. get_prop config ''github'' = JStr s \<and> startsWith s ''https://github.com/'')
   \<and> length SavedTweets = 2
   \<and> map fst SavedTweets = [''twoMillionViews'', ''topContributorFreeCodeCamp2018'']
   \<and> get_prop SavedTweets ''twoMillionViews''
       = JStr ''https://twitter.com/amanhimself/status/1285554115464982528''
   \<and> get_prop SavedTweets ''topContributorFreeCodeCamp2018''
       = JStr ''https://www.freecodecamp.org/news/announcing-our-freecodecamp-2018-top-contributor-award-winners-861da08a77e1/''"
  by (simp add: get_prop_def config_def SavedTweets_def startsWith_def)

text \<open>
  No key is written twice in either object literal, so that reading a property by
  its first occurrence is what the object holds.
\<close>

lemma config_keys_distinct: "distinct (map fst config)"
  by (simp add: config_def)

text \<open>
  C2. The configuration object has every documented key (siteTitle, siteUrl,
  description, username, shortname, github, twitter, medium, devto, hashnode,
  instagram, goodreads, mailAddress, newsletter, kofi, twitterBotRepo,
  hundredDaysOfCodeBot, subscribersCount), and the value under each of them is a
  string that is not empty.
\<close>

theorem config_documented_keys_nonempty_strings:
  "\<forall>k \<in> set documented_keys.
     k \<in> set (map fst config) \<and> (\<exists>s. get_prop config k = JStr s \<and> s \<noteq> [])"
  by (simp add: documented_keys_def config_def get_prop_def)

theorem config_documented_keys_nonempty_strings_witness:
  "''subscribersCount'' \<in> set documented_keys
   \<and> ''subscribersCount'' \<in> set (map fst config)
   \<and> (\<exists>s. get_prop config ''subscribersCount'' = JStr s \<and> s \<noteq> [])"
proof -
  have k: "''subscribersCount'' \<in> set documented_keys"
    by (simp add: documented_keys_def)
  from config_documented_keys_nonempty_strings k show ?thesis
    by blast
qed

lemmas url_defs =
  valid_url_def valid_scheme_def valid_authority_def valid_host_def valid_label_def
  valid_port_def port_number_def is_alpha_def is_digit_def is_hexdig_def
  is_scheme_char_def is_pchar_def is_path_char_def is_query_char_def

text \<open>
  The recogniser at work: it accepts a URL with a port, an encoded character, a
  query and a fragment, and it refuses a bare percent sign, an open bracket, a second
  hash, a port that is not a number or is too large, a missing host, a space, and a
  string with no scheme.
\<close>

lemma valid_url_accepts:
  "valid_url ''https://host.example:8080/a%20b/c?x=1&y=/?#frag/?''"
  by (simp add: url_defs)

lemma valid_url_refuses:
  "\<not> valid_url ''https://%'' \<and> \<not> valid_url ''https://[''
   \<and> \<not> valid_url ''https://a#b#c'' \<and> \<not> valid_url ''https://host:notaport/%zz''
   \<and> \<not> valid_url ''https://host:99999/'' \<and> \<not> valid_url ''https:///x''
   \<and> \<not> valid_url ''https://x.com/a b'' \<and> \<not> valid_url ''x.com/a''"
  by (simp add: url_defs)

text \<open>
  C3. The keys of \<open>SavedTweets\<close> are pairwise distinct, and every value of it is a
  string that is a syntactically valid URL.
\<close>

theorem savedtweets_distinct_keys_valid_urls:
  "distinct (map fst SavedTweets)
   \<and> (\<forall>(k, v) \<in> set SavedTweets. \<exists>s. v = JStr s \<and> valid_url s)"
  by (simp add: SavedTweets_def url_defs)

theorem savedtweets_distinct_keys_valid_urls_witness:
  "(''twoMillionViews'', JStr ''https://twitter.com/amanhimself/status/1285554115464982528'')
     \<in> set SavedTweets
   \<and> valid_url ''https://twitter.com/amanhimself/status/1285554115464982528''"
proof -
  have m: "(''twoMillionViews'',
            JStr ''https://twitter.com/amanhimself/status/1285554115464982528'')
           \<in> set SavedTweets"
    by (simp add: SavedTweets_def)
  from savedtweets_distinct_keys_valid_urls m show ?thesis
    by fastforce
qed

text \<open>
  C5. The field \<open>subscribersCount\<close> of the configuration object is a string of free
  text and not a number: its value is the string '1200+', which is not a decimal
  numeral.
\<close>

theorem subscribersCount_is_free_text:
  "get_prop config ''subscribersCount'' = JStr ''1200+''
   \<and> is_string (get_prop config ''subscribersCount'')
   \<and> (\<forall>n. get_prop config ''subscribersCount'' \<noteq> JNum n)
   \<and> \<not> is_decimal_numeral ''1200+''"
  by (simp add: get_prop_def config_def is_decimal_numeral_def is_digit_def)

text \<open>
  The export list of the module: the named export \<open>SavedTweets\<close> and the default
  export, which is the configuration object, and nothing else.
\<close>

lemma module_exports_shape:
  "map fst module_exports = [''SavedTweets'', ''default'']
   \<and> map_of module_exports ''default'' = Some config
   \<and> map_of module_exports ''SavedTweets'' = Some SavedTweets"
  by (simp add: module_exports_def)

text \<open>
  C8. Every field of the configuration object that holds a link (siteUrl,
  newsletter, github, twitter, medium, devto, hashnode, instagram,
  hundredDaysOfCodeBot, kofi, twitterBotRepo, goodreads) is a string that starts
  with 'https://'; \<open>mailAddress\<close> starts with 'mailto:', and it is the only field
  of the object whose value has a scheme other than https.
\<close>

theorem config_link_schemes:
  "(\<forall>k \<in> set link_fields. \<exists>s. get_prop config k = JStr s \<and> startsWith s ''https://'')
   \<and> (\<exists>s. get_prop config ''mailAddress'' = JStr s \<and> startsWith s ''mailto:'')
   \<and> map fst (filter (\<lambda>(k, v). uses_other_scheme v) config) = [''mailAddress'']"
  by (simp add: link_fields_def get_prop_def config_def startsWith_def uri_scheme_def)

theorem config_link_schemes_witness:
  "''goodreads'' \<in> set link_fields
   \<and> (\<exists>s. get_prop config ''goodreads'' = JStr s \<and> startsWith s ''https://'')"
proof -
  have k: "''goodreads'' \<in> set link_fields"
    by (simp add: link_fields_def)
  from config_link_schemes k show ?thesis
    by blast
qed

text \<open>
  C9. The identity fields of the configuration disagree: \<open>username\<close> is
  'Alec Campbell' and \<open>siteTitle\<close> is 'Aman Mittal', which are different
  strings; and the handle inside shortname, github, twitter, devto and hashnode
  is 'fu4303', while the handle inside medium, newsletter and kofi is
  'amanhimself', a different one.
\<close>

theorem config_identity_fields_inconsistent:
  "get_prop config ''username'' = JStr ''Alec Campbell''
   \<and> get_prop config ''siteTitle'' = JStr ''Aman Mittal''
   \<and> get_prop config ''username'' \<noteq> get_prop config ''siteTitle''
   \<and> get_prop config ''shortname'' = JStr (''@'' @ ''fu4303'')
   \<and> get_prop config ''github'' = JStr (''https://github.com/'' @ ''fu4303'')
   \<and> get_prop config ''twitter'' = JStr (''https://twitter.com/'' @ ''fu4303'')
   \<and> get_prop config ''devto'' = JStr (''https://dev.to/'' @ ''fu4303'')
   \<and> get_prop config ''hashnode'' = JStr (''https://hashnode.com/@'' @ ''fu4303'')
   \<and> get_prop config ''medium'' = JStr (''https://medium.com/@'' @ ''amanhimself'')
   \<and> get_prop config ''newsletter''
       = JStr (''https://'' @ ''amanhimself'' @ ''.substack.com/'')
   \<and> get_prop config ''kofi'' = JStr (''https://ko-fi.com/'' @ ''amanhimself'')
   \<and> ''fu4303'' \<noteq> ''amanhimself''"
  by (simp add: get_prop_def config_def)

text \<open>
  C10. Exactly one of the two entries of \<open>SavedTweets\<close> is a link to a tweet: the
  value of \<open>twoMillionViews\<close> starts with 'https://twitter.com/', and the value
  of \<open>topContributorFreeCodeCamp2018\<close> does not: it is the address of an article
  on www.freecodecamp.org.
\<close>

theorem savedtweets_one_tweet:
  "references_tweet (get_prop SavedTweets ''twoMillionViews'')
   \<and> \<not> references_tweet (get_prop SavedTweets ''topContributorFreeCodeCamp2018'')
   \<and> (\<exists>s. get_prop SavedTweets ''topContributorFreeCodeCamp2018'' = JStr s
          \<and> startsWith s ''https://www.freecodecamp.org/'')
   \<and> length (filter (\<lambda>(k, v). references_tweet v) SavedTweets) = 1"
  by (simp add: get_prop_def SavedTweets_def startsWith_def)

section \<open>Properties of the content document\<close>

text \<open>
  The front-matter of the post on Redux with React Native hooks has every key that
  the content file format requires, and its tags are a list of strings.
\<close>

lemma redux_post_front_matter_keys:
  "list_all (\<lambda>k. map_of redux_with_react_native_hooks k \<noteq> None) required_keys
   \<and> map_of redux_with_react_native_hooks ''tags''
       = Some (FmList [''expo'', ''redux'', ''react-native''])"
  by (simp add: required_keys_def redux_with_react_native_hooks_def)

end
